theory Spec2Isabelle
  imports Main "HOL-Library.Finite_Map"
begin

section \<open>JavaScript values and errors\<close>

text \<open>
  The values that travel through \<^verbatim>\<open>lib/orm/base_model.js\<close>: option flags, bound query
  parameters, query objects and result rows. A plain object is a finite map from property
  names to values, so that equality of two objects does not depend on the order in which
  their properties were written, as with lodash's \<^verbatim>\<open>_.isEqual\<close>. Numbers are carried
  as integers: the code below only tests whether a value is a number and passes it on.
\<close>

datatype jsval =
    JUndefined
  | JNull
  | JBool bool
  | JNum int
  | JStr string
  | JArr "jsval list"
  | JObj "(string, jsval) fmap"

text \<open>The test of \<^verbatim>\<open>if (v)\<close> and the operand of \<^verbatim>\<open>!v\<close>.\<close>

fun truthy :: "jsval \<Rightarrow> bool" where
  "truthy JUndefined = False"
| "truthy JNull = False"
| "truthy (JBool b) = b"
| "truthy (JNum n) = (n \<noteq> 0)"
| "truthy (JStr s) = (s \<noteq> [])"
| "truthy (JArr xs) = True"
| "truthy (JObj m) = True"

text \<open>\<^verbatim>\<open>_.isNumber(v)\<close>.\<close>

fun isNumber :: "jsval \<Rightarrow> bool" where
  "isNumber (JNum n) = True"
| "isNumber v = False"

text \<open>
  \<^verbatim>\<open>buildError(kind, args...)\<close> of \<^verbatim>\<open>apollo_error.js\<close> makes an error tagged with its
  kind; its arguments are strings or the error it wraps. \<open>JsError\<close> is any other error
  object, with its \<^verbatim>\<open>message\<close>; \<open>TypeError\<close> is what the runtime raises when a value
  that is not a function is called.
\<close>

datatype error =
    BuildError string "error_arg list"
  | JsError string
  | TypeError string
and error_arg = AStr string | AErr error

text \<open>
  \<^verbatim>\<open>err.message\<close>. The message templates live in \<^verbatim>\<open>apollo_error.js\<close>, another
  module, so the text of a built error is a parameter \<open>tmpl\<close>.
\<close>

fun message :: "(string \<Rightarrow> error_arg list \<Rightarrow> string) \<Rightarrow> error \<Rightarrow> string" where
  "message tmpl (BuildError kind args) = tmpl kind args"
| "message tmpl (JsError m) = m"
| "message tmpl (TypeError m) = m"

text \<open>
  What the caller of an operation observes: an exception, the error or the value handed
  to its callback, a callback invoked without arguments, the statement returned under
  \<^verbatim>\<open>return_query\<close>, an error that \<^verbatim>\<open>utils/parser.js\<close> has reported by itself
  (\<^verbatim>\<open>errorHappened\<close>), or nothing at all (no callback was given and nothing failed).
\<close>

datatype 'a outcome =
    Threw error
  | Callback_error error
  | Callback_value 'a
  | Callback_empty
  | Returned_query string "jsval list"
  | Reported_by_parser
  | Completed

section \<open>Schemas and model properties\<close>

datatype key_part = Col string | Composite "string list"

record mview =
  mv_select :: "string list"
  mv_key :: "key_part list"

text \<open>
  A schema definition, declared or read back from the database, and its normalized form
  (the same shape). The functions a declared schema may carry (its hooks) are kept apart,
  in \<open>hooks\<close>, so that a schema is plain data.
\<close>

record schema =
  schema_fields :: "(string, string) fmap"
  key :: "key_part list"
  clustering_order :: "(string, string) fmap"
  indexes :: "string list option"
  custom_indexes :: "(string, string) fmap list option"
  custom_index :: "(string, string) fmap option"
  materialized_views :: "(string, mview) fmap option"
  es_index_mapping :: "jsval"
  graph_mapping :: "jsval"

text \<open>
  The options object of \<^verbatim>\<open>find\<close>, \<^verbatim>\<open>update\<close>, \<^verbatim>\<open>delete\<close> and \<^verbatim>\<open>save\<close>.
  \<open>raw\<close> and \<open>prepare\<close> may be undefined (\<open>None\<close>) until the defaults are filled in;
  \<open>ttl\<close> is any value, since the code asks whether it is a number. \<open>groupby\<close> is
  read by the parser only.
\<close>

record options =
  raw :: "bool option"
  prepare :: "bool option"
  select :: "string list option"
  groupby :: "string list option"
  distinct_opt :: bool
  materialized_view :: "string option"
  allow_filtering :: bool
  return_query :: bool
  ttl :: jsval
  conditions :: "(string, jsval) fmap option"
  if_exists :: bool
  if_not_exist :: bool

text \<open>
  The hooks of a schema: \<open>None\<close> when \<^verbatim>\<open>typeof schema.before_save !== 'function'\<close>.
  A hook is modelled by the value it returns.
\<close>

record hooks =
  before_save :: "((string, jsval) fmap \<Rightarrow> options \<Rightarrow> jsval) option"
  after_save :: "((string, jsval) fmap \<Rightarrow> options \<Rightarrow> jsval) option"
  before_update :: "((string, jsval) fmap \<Rightarrow> (string, jsval) fmap \<Rightarrow> options \<Rightarrow> jsval) option"
  after_update :: "((string, jsval) fmap \<Rightarrow> (string, jsval) fmap \<Rightarrow> options \<Rightarrow> jsval) option"
  before_delete :: "((string, jsval) fmap \<Rightarrow> options \<Rightarrow> jsval) option"
  after_delete :: "((string, jsval) fmap \<Rightarrow> options \<Rightarrow> jsval) option"

text \<open>
  \<^verbatim>\<open>this._properties\<close> of a model, as \<^verbatim>\<open>apollo.js\<close> fills it in \<^verbatim>\<open>add_model\<close>.
  \<open>esclient\<close> and \<open>gremlin_client\<close> say whether the client is there.
\<close>

record properties =
  table_name :: string
  keyspace :: string
  schema :: schema
  hooks :: hooks
  migration :: jsval
  dropTableOnSchemaChange :: jsval
  createTable :: jsval
  esclient :: bool
  gremlin_client :: bool

section \<open>Schema synchronisation\<close>

text \<open>
  \<^verbatim>\<open>TableBuilder\<close> (\<^verbatim>\<open>builders/table.js\<close>) talks to the database. Each of its methods
  is called at most once in a sync, so its answer in that sync is a value: the error and
  the schema \<^verbatim>\<open>get_table_schema\<close> calls back with (no schema when the table does not
  exist), and the error, if any, the other methods call back with. The indexing tasks run
  concurrently under \<^verbatim>\<open>Promise.all\<close>, which rejects with the rejection that arrives
  first: \<open>first_settled\<close> picks it among the rejections.
\<close>

record table_builder =
  get_table_schema :: "error + schema option"
  create_table :: "error option"
  init_alter_operations :: "error option"
  drop_recreate_table :: "error option"
  create_indexes :: "error option"
  create_custom_indexes :: "error option"
  create_custom_index :: "error option"
  create_mviews :: "error option"
  first_settled :: nat

text \<open>The calls a sync makes on the table builder, with their arguments.\<close>

datatype action =
    GetTableSchema
  | CreateTable schema
  | InitAlterOperations schema schema schema schema
  | DropRecreateTable schema "(string, mview) fmap option"
  | CreateIndexes "string list"
  | CreateCustomIndexes "(string, string) fmap list"
  | CreateMviews "(string, mview) fmap"

text \<open>
  Lines 126-131 of \<^verbatim>\<open>_sync_model_definition\<close>: the migration policy in force.
\<close>

definition resolve_migration :: "string option \<Rightarrow> properties \<Rightarrow> jsval" where
  "resolve_migration node_env props =
    (let migration = migration props;
         migration = (if \<not> truthy migration
                      then (if truthy (dropTableOnSchemaChange props) then JStr ''drop'' else JStr ''safe'')
                      else migration)
     in if node_env = Some ''production'' then JStr ''safe'' else migration)"

text \<open>\<^verbatim>\<open>Promise.all\<close> over the settled tasks: the rejection it reports, if any.\<close>

definition promise_all :: "nat \<Rightarrow> error option list \<Rightarrow> error option" where
  "promise_all first rs =
    (let rejections = List.map_filter id rs
     in if rejections = [] then None
        else Some (rejections ! (first mod length rejections)))"

text \<open>The local function \<^verbatim>\<open>afterDBCreate\<close>.\<close>

definition afterDBCreate :: "table_builder \<Rightarrow> schema \<Rightarrow> error option \<Rightarrow> action list \<times> jsval outcome" where
  "afterDBCreate tb modelSchema err1 =
    (case err1 of
       Some e \<Rightarrow> ([], Callback_error e)
     | None \<Rightarrow>
        (let t1 = (case indexes modelSchema of
                     Some ix \<Rightarrow> [(CreateIndexes ix, create_indexes tb)] | None \<Rightarrow> []);
             t2 = (case custom_indexes modelSchema of
                     Some cx \<Rightarrow> [(CreateCustomIndexes cx, create_custom_indexes tb)] | None \<Rightarrow> []);
             t3 = (case custom_index modelSchema of
                     Some c \<Rightarrow> [(CreateCustomIndexes [c], create_custom_index tb)] | None \<Rightarrow> []);
             t4 = (case materialized_views modelSchema of
                     Some mv \<Rightarrow> [(CreateMviews mv, create_mviews tb)] | None \<Rightarrow> []);
             indexingTasks = t1 @ t2 @ t3 @ t4
         in (map fst indexingTasks,
             case promise_all (first_settled tb) (map snd indexingTasks) of
               None \<Rightarrow> Callback_value (JBool True)
             | Some err2 \<Rightarrow> Callback_error err2)))"

text \<open>
  \<^verbatim>\<open>tableBuilder.drop_recreate_table(modelSchema, normalizedDBSchema.materialized_views,
  afterDBCreate)\<close>, written three times in the source.
\<close>

definition drop_recreate :: "table_builder \<Rightarrow> schema \<Rightarrow> schema \<Rightarrow> action list \<times> jsval outcome" where
  "drop_recreate tb modelSchema normalizedDBSchema =
    (let (acts, out) = afterDBCreate tb modelSchema (drop_recreate_table tb)
     in (DropRecreateTable modelSchema (materialized_views normalizedDBSchema) # acts, out))"

text \<open>
  \<^verbatim>\<open>BaseModel._sync_model_definition\<close>. \<open>node_env\<close> is \<^verbatim>\<open>process.env.NODE_ENV\<close>,
  \<open>normalize_model_schema\<close> is the function of \<^verbatim>\<open>utils/normalizer.js\<close> (\<open>Inl\<close> the
  message of the exception it throws). The result is the list of calls made on the table
  builder, in order, and what the caller's callback receives.
\<close>

definition sync_model_definition ::
  "string option \<Rightarrow> (string \<Rightarrow> error_arg list \<Rightarrow> string) \<Rightarrow> (schema \<Rightarrow> string + schema)
    \<Rightarrow> table_builder \<Rightarrow> properties \<Rightarrow> action list \<times> jsval outcome" where
  "sync_model_definition node_env tmpl normalize_model_schema tb props =
    (let tableName = table_name props;
         modelSchema = schema props;
         migration = resolve_migration node_env props
     in case get_table_schema tb of
          Inl err \<Rightarrow> ([GetTableSchema], Callback_error err)
        | Inr None \<Rightarrow>
            if createTable props = JBool False
            then ([GetTableSchema],
                  Callback_error (BuildError ''model.tablecreation.schemanotfound'' [AStr tableName]))
            else (let (acts, out) = afterDBCreate tb modelSchema (create_table tb)
                  in (GetTableSchema # CreateTable modelSchema # acts, out))
        | Inr (Some dbSchema) \<Rightarrow>
           (case normalize_model_schema modelSchema of
              Inl m \<Rightarrow> ([GetTableSchema], Threw (BuildError ''model.validator.invalidschema'' [AStr m]))
            | Inr normalizedModelSchema \<Rightarrow>
           (case normalize_model_schema dbSchema of
              Inl m \<Rightarrow> ([GetTableSchema], Threw (BuildError ''model.validator.invalidschema'' [AStr m]))
            | Inr normalizedDBSchema \<Rightarrow>
               if normalizedModelSchema = normalizedDBSchema
               then ([GetTableSchema], Callback_value (JBool False))
               else if migration = JStr ''alter''
               then (if key normalizedModelSchema = key normalizedDBSchema
                        \<and> clustering_order normalizedModelSchema = clustering_order normalizedDBSchema
                     then (let alter = InitAlterOperations modelSchema dbSchema
                                         normalizedModelSchema normalizedDBSchema
                           in case init_alter_operations tb of
                                Some err1 \<Rightarrow>
                                  if message tmpl err1 = ''alter_impossible''
                                  then (let (acts, out) = drop_recreate tb modelSchema normalizedDBSchema
                                        in (GetTableSchema # alter # acts, out))
                                  else ([GetTableSchema, alter], Callback_error err1)
                              | None \<Rightarrow> ([GetTableSchema, alter], Callback_empty))
                     else (let (acts, out) = drop_recreate tb modelSchema normalizedDBSchema
                           in (GetTableSchema # acts, out)))
               else if migration = JStr ''drop''
               then (let (acts, out) = drop_recreate tb modelSchema normalizedDBSchema
                     in (GetTableSchema # acts, out))
               else ([GetTableSchema],
                     Callback_error (BuildError ''model.tablecreation.schemamismatch''
                       [AStr tableName, AStr ''migration suspended, please apply the change manually''])))))"

text \<open>Whether a call alters the table in place, or drops and recreates it.\<close>

fun is_alter :: "action \<Rightarrow> bool" where
  "is_alter (InitAlterOperations a b c d) = True"
| "is_alter x = False"

fun is_drop_recreate :: "action \<Rightarrow> bool" where
  "is_drop_recreate (DropRecreateTable a b) = True"
| "is_drop_recreate x = False"

fun is_create :: "action \<Rightarrow> bool" where
  "is_create (CreateTable a) = True"
| "is_create x = False"

section \<open>The statement builder and the table operations\<close>

text \<open>A clause with its bound parameters, as \<^verbatim>\<open>utils/parser.js\<close> returns it.\<close>

record clause =
  query :: string
  params :: "jsval list"

record update_value_expression =
  updateClauses :: "string list"
  queryParams :: "jsval list"
  errorHappened :: bool

record save_value_expression =
  identifiers :: "string list"
  values_of :: "string list"
  save_queryParams :: "jsval list"
  save_errorHappened :: bool

text \<open>
  The clause builders of \<^verbatim>\<open>utils/parser.js\<close>, another module: they are parameters
  of the model. \<open>Inl\<close> is the exception a builder throws. A clause
  that is absent is the empty string. The last argument of the two value-expression
  builders says whether the caller's callback is a function: when it is, they report an
  error to it themselves and set \<^verbatim>\<open>errorHappened\<close>.
\<close>

record parser =
  get_orderby_clause :: "(string, jsval) fmap \<Rightarrow> error + string"
  get_limit_clause :: "(string, jsval) fmap \<Rightarrow> error + string"
  get_where_clause :: "schema \<Rightarrow> (string, jsval) fmap \<Rightarrow> error + clause"
  get_select_clause :: "options \<Rightarrow> error + string"
  get_groupby_clause :: "options \<Rightarrow> error + string"
  get_if_clause :: "schema \<Rightarrow> (string, jsval) fmap \<Rightarrow> error + clause"
  get_update_value_expression ::
    "schema \<Rightarrow> (string, jsval) fmap \<Rightarrow> bool \<Rightarrow> error + update_value_expression"
  get_save_value_expression ::
    "(string, jsval) fmap \<Rightarrow> schema \<Rightarrow> bool \<Rightarrow> error + save_value_expression"

text \<open>
  Modelled from the spec: \<^verbatim>\<open>parser.callback_or_throw(err, callback)\<close> belongs to
  \<^verbatim>\<open>utils/parser.js\<close>, whose code is missing. The spec's error-handling section gives the
  convention: "if a callback
  was supplied, the error is delivered to it; if not, it is raised synchronously".
  \<open>callback\<close> says whether a callback function was supplied.
\<close>

definition callback_or_throw :: "error \<Rightarrow> bool \<Rightarrow> 'a outcome" where
  "callback_or_throw err callback = (if callback then Callback_error err else Threw err)"

text \<open>
  The driver (\<^verbatim>\<open>helpers/driver.js\<close>): what the database answers to a statement and its
  parameters, an error or the rows of the result. For \<^verbatim>\<open>execute_eachRow\<close> and
  \<^verbatim>\<open>execute_stream\<close> only the error of the final callback matters here.
\<close>

record driver =
  execute_query :: "string \<Rightarrow> jsval list \<Rightarrow> error + (string, jsval) fmap list"
  execute_eachRow :: "string \<Rightarrow> jsval list \<Rightarrow> error option"
  execute_stream :: "string \<Rightarrow> jsval list \<Rightarrow> error option"

text \<open>
  A model handle: the class \<^verbatim>\<open>apollo.js\<close> generates from \<^verbatim>\<open>BaseModel\<close>, with its
  \<^verbatim>\<open>_properties\<close> and its \<^verbatim>\<open>_ready\<close> flag, which no code sets before the first
  \<^verbatim>\<open>init\<close> or \<^verbatim>\<open>syncDB\<close> (it is undefined on a fresh handle).
\<close>

record model =
  properties :: properties
  ready :: jsval

definition new_model :: "properties \<Rightarrow> model" where
  "new_model props = \<lparr>properties = props, ready = JUndefined\<rparr>"

text \<open>A statement handed to the driver.\<close>

datatype event =
    Execute string "jsval list"
  | ExecuteEachRow string "jsval list"
  | ExecuteStream string "jsval list"


text \<open>Calling \<^verbatim>\<open>callback(...)\<close> when \<^verbatim>\<open>callback\<close> may not be a function.\<close>

definition invoke :: "bool \<Rightarrow> 'a outcome \<Rightarrow> 'a outcome" where
  "invoke callback r = (if callback then r else Threw (TypeError ''callback is not a function''))"

text \<open>\<^verbatim>\<open>Array.prototype.join\<close> on strings.\<close>

fun join :: "string \<Rightarrow> string list \<Rightarrow> string" where
  "join sep [] = []"
| "join sep [x] = x"
| "join sep (x # y # ys) = x @ sep @ join sep (y # ys)"

text \<open>
  \<^verbatim>\<open>BaseModel.get_find_query\<close>. The five clauses are computed first, in the order of
  the source, and the first exception ends the call. \<^verbatim>\<open>util.format\<close> with \<^verbatim>\<open>%s\<close>
  and string arguments is concatenation.
\<close>

definition get_find_query ::
  "parser \<Rightarrow> model \<Rightarrow> (string, jsval) fmap \<Rightarrow> options \<Rightarrow> error + clause" where
  "get_find_query ps m queryObject opts =
    (case get_orderby_clause ps queryObject of Inl e \<Rightarrow> Inl e | Inr orderbyClause \<Rightarrow>
    (case get_limit_clause ps queryObject of Inl e \<Rightarrow> Inl e | Inr limitClause \<Rightarrow>
    (case get_where_clause ps (schema (properties m)) queryObject of Inl e \<Rightarrow> Inl e | Inr whereClause \<Rightarrow>
    (case get_select_clause ps opts of Inl e \<Rightarrow> Inl e | Inr selectClause \<Rightarrow>
    (case get_groupby_clause ps opts of Inl e \<Rightarrow> Inl e | Inr groupbyClause \<Rightarrow>
      (let q0 = ''SELECT '' @ (if distinct_opt opts then ''DISTINCT '' else [])
                  @ selectClause @ '' FROM \"''
                  @ (case materialized_view opts of
                       Some mv \<Rightarrow> if mv \<noteq> [] then mv else table_name (properties m)
                     | None \<Rightarrow> table_name (properties m))
                  @ ''\"'';
           q1 = (if query whereClause \<noteq> [] then q0 @ '' '' @ query whereClause else q0);
           q2 = (if orderbyClause \<noteq> [] then q1 @ '' '' @ orderbyClause else q1);
           q3 = (if groupbyClause \<noteq> [] then q2 @ '' '' @ groupbyClause else q2);
           q4 = (if limitClause \<noteq> [] then q3 @ '' '' @ limitClause else q3);
           q5 = (if allow_filtering opts then q4 @ '' ALLOW FILTERING'' else q4)
       in Inr \<lparr>query = q5 @ '';'', params = params whereClause\<rparr>))))))"

definition is_table_ready :: "model \<Rightarrow> bool" where
  "is_table_ready m = (ready m = JBool True)"

text \<open>
  \<^verbatim>\<open>BaseModel.init\<close>: the flag is set, then the callback is called without arguments.
  \<open>callback\<close> says whether the callback (the only argument, or the second) is a function.
\<close>

definition init :: "model \<Rightarrow> bool \<Rightarrow> model \<times> unit outcome" where
  "init m callback = (m\<lparr>ready := JBool True\<rparr>, invoke callback Callback_empty)"

text \<open>
  \<^verbatim>\<open>BaseModel._execute_table_query\<close>: the statement goes to the driver at once on a
  ready model, and after \<^verbatim>\<open>init\<close> otherwise.
\<close>

definition execute_table_query ::
  "driver \<Rightarrow> model \<Rightarrow> string \<Rightarrow> jsval list
    \<Rightarrow> model \<times> event list \<times> (error + (string, jsval) fmap list)" where
  "execute_table_query dr m stmt ps =
    (if is_table_ready m then (m, [Execute stmt ps], execute_query dr stmt ps)
     else (let (m', r) = init m True
           in case r of
                Callback_error err \<Rightarrow> (m', [], Inl err)
              | Threw err \<Rightarrow> (m', [], Inl err)
              | _ \<Rightarrow> (m', [Execute stmt ps], execute_query dr stmt ps)))"




definition defaults_prepare :: "options \<Rightarrow> options" where
  "defaults_prepare opts =
    opts\<lparr>prepare := (case prepare opts of None \<Rightarrow> Some True | Some b \<Rightarrow> Some b)\<rparr>"



text \<open>
  \<^verbatim>\<open>schema.before_update(...) === false\<close> and its siblings: a declared hook whose value
  is the boolean \<^verbatim>\<open>false\<close>.
\<close>

definition hook_is_false :: "jsval option \<Rightarrow> bool" where
  "hook_is_false r = (case r of Some v \<Rightarrow> v = JBool False | None \<Rightarrow> False)"

text \<open>
  What the callback of \<^verbatim>\<open>_execute_table_query\<close> does in \<^verbatim>\<open>update\<close>, \<^verbatim>\<open>delete\<close>
  and \<^verbatim>\<open>save\<close>, for the operation named \<open>opn\<close>: \<open>res\<close> is the driver's answer and
  \<open>after\<close> the value of the after-hook, if one is declared.
\<close>

definition after_execute ::
  "string \<Rightarrow> bool \<Rightarrow> error + (string, jsval) fmap list \<Rightarrow> jsval option
    \<Rightarrow> (string, jsval) fmap list outcome" where
  "after_execute opn callback res after =
    (if callback
     then (case res of
             Inl err \<Rightarrow> Callback_error (BuildError (''model.'' @ opn @ ''.dberror'') [AErr err])
           | Inr results \<Rightarrow>
               if hook_is_false after
               then Callback_error (BuildError (''model.'' @ opn @ ''.after.error'') [])
               else Callback_value results)
     else (case res of
             Inl err \<Rightarrow> Threw (BuildError (''model.'' @ opn @ ''.dberror'') [AErr err])
           | Inr results \<Rightarrow>
               if hook_is_false after
               then Threw (BuildError (''model.'' @ opn @ ''.after.error'') [])
               else Completed))"

text \<open>\<^verbatim>\<open>BaseModel.update\<close>.\<close>

definition update ::
  "parser \<Rightarrow> driver \<Rightarrow> model \<Rightarrow> (string, jsval) fmap \<Rightarrow> (string, jsval) fmap \<Rightarrow> options \<Rightarrow> bool
    \<Rightarrow> model \<times> event list \<times> (string, jsval) fmap list outcome" where
  "update ps dr m queryObject updateValues opts0 callback =
    (let sch = schema (properties m);
         hks = hooks (properties m);
         opts = defaults_prepare opts0
     in if hook_is_false (map_option (\<lambda>h. h queryObject updateValues opts) (before_update hks))
        then (m, [], callback_or_throw (BuildError ''model.update.before.error'' []) callback)
        else
         (case get_update_value_expression ps sch updateValues callback of
            Inl e \<Rightarrow> (m, [], Threw e)
          | Inr uve \<Rightarrow>
             if errorHappened uve then (m, [], Reported_by_parser)
             else
              (let finalParams0 = queryParams uve;
                   using_ttl = (if isNumber (ttl opts) then '' USING TTL ?'' else []);
                   finalParams1 = (if isNumber (ttl opts) then [ttl opts] @ finalParams0 else finalParams0)
               in case get_where_clause ps sch queryObject of
                    Inl e \<Rightarrow> (m, [], callback_or_throw e callback)
                  | Inr whereClause \<Rightarrow>
                     (let finalParams2 = finalParams1 @ params whereClause;
                          stmt0 = ''UPDATE \"'' @ table_name (properties m) @ ''\"'' @ using_ttl
                                    @ '' SET '' @ join '', '' (updateClauses uve) @ '' '' @ query whereClause;
                          ifc = (case conditions opts of
                                   Some conds \<Rightarrow>
                                     (case get_if_clause ps sch conds of
                                        Inl e \<Rightarrow> Inl e
                                      | Inr ifClause \<Rightarrow>
                                          if query ifClause \<noteq> []
                                          then Inr (stmt0 @ '' '' @ query ifClause, finalParams2 @ params ifClause)
                                          else Inr (stmt0, finalParams2))
                                 | None \<Rightarrow>
                                     if if_exists opts then Inr (stmt0 @ '' IF EXISTS'', finalParams2)
                                     else Inr (stmt0, finalParams2))
                      in case ifc of
                           Inl e \<Rightarrow> (m, [], Threw e)
                         | Inr (stmt1, finalParams) \<Rightarrow>
                            (let stmt = stmt1 @ '';''
                             in if return_query opts then (m, [], Returned_query stmt finalParams)
                                else (let (m', evs, res) = execute_table_query dr m stmt finalParams
                                      in (m', evs,
                                          after_execute ''update'' callback res
                                            (map_option (\<lambda>h. h queryObject updateValues opts)
                                               (after_update hks)))))))))"

text \<open>\<^verbatim>\<open>BaseModel.delete\<close>.\<close>

definition delete ::
  "parser \<Rightarrow> driver \<Rightarrow> model \<Rightarrow> (string, jsval) fmap \<Rightarrow> options \<Rightarrow> bool
    \<Rightarrow> model \<times> event list \<times> (string, jsval) fmap list outcome" where
  "delete ps dr m queryObject opts0 callback =
    (let sch = schema (properties m);
         hks = hooks (properties m);
         opts = defaults_prepare opts0
     in if hook_is_false (map_option (\<lambda>h. h queryObject opts) (before_delete hks))
        then (m, [], callback_or_throw (BuildError ''model.delete.before.error'' []) callback)
        else
         (case get_where_clause ps sch queryObject of
            Inl e \<Rightarrow> (m, [], callback_or_throw e callback)
          | Inr whereClause \<Rightarrow>
             (let qps = [] @ params whereClause;
                  stmt = ''DELETE FROM \"'' @ table_name (properties m) @ ''\" '' @ query whereClause @ '';''
              in if return_query opts then (m, [], Returned_query stmt qps)
                 else (let (m', evs, res) = execute_table_query dr m stmt qps
                       in (m', evs,
                           after_execute ''delete'' callback res
                             (map_option (\<lambda>h. h queryObject opts) (after_delete hks)))))))"

text \<open>
  \<^verbatim>\<open>BaseModel.prototype.save\<close>, on the instance \<open>inst\<close> of the model \<open>m\<close>. The
  \<^verbatim>\<open>_modified\<close> marks of the instance, which \<^verbatim>\<open>save\<close> clears at the end, are not part
  of the model.
\<close>

definition save ::
  "parser \<Rightarrow> driver \<Rightarrow> model \<Rightarrow> (string, jsval) fmap \<Rightarrow> options \<Rightarrow> bool
    \<Rightarrow> model \<times> event list \<times> (string, jsval) fmap list outcome" where
  "save ps dr m inst opts0 callback =
    (let sch = schema (properties m);
         hks = hooks (properties m);
         opts = defaults_prepare opts0
     in if hook_is_false (map_option (\<lambda>h. h inst opts) (before_save hks))
        then (m, [], callback_or_throw (BuildError ''model.save.before.error'' []) callback)
        else
         (case get_save_value_expression ps inst sch callback of
            Inl e \<Rightarrow> (m, [], Threw e)
          | Inr sve \<Rightarrow>
             if save_errorHappened sve then (m, [], Reported_by_parser)
             else
              (let stmt0 = ''INSERT INTO \"'' @ table_name (properties m) @ ''\" ( ''
                             @ join '' , '' (identifiers sve) @ '' ) VALUES ( ''
                             @ join '' , '' (values_of sve) @ '' )'';
                   stmt1 = (if if_not_exist opts then stmt0 @ '' IF NOT EXISTS'' else stmt0);
                   finalParams0 = save_queryParams sve;
                   stmt2 = (if isNumber (ttl opts) then stmt1 @ '' USING TTL ?'' else stmt1);
                   finalParams = (if isNumber (ttl opts) then finalParams0 @ [ttl opts] else finalParams0);
                   stmt = stmt2 @ '';''
               in if return_query opts then (m, [], Returned_query stmt finalParams)
                  else (let (m', evs, res) = execute_table_query dr m stmt finalParams
                        in (m', evs,
                            after_execute ''save'' callback res
                              (map_option (\<lambda>h. h inst opts) (after_save hks)))))))"




section \<open>Readiness of a model handle\<close>

text \<open>
  The builders of the search index and of the graph (\<^verbatim>\<open>builders/elassandra.js\<close>,
  \<^verbatim>\<open>builders/janusgraph.js\<close>): the error, if any, each method calls back with.
\<close>

record sink_builders =
  assert_index :: "error option"
  put_mapping :: "error option"
  assert_graph :: "error option"
  put_graph_mapping :: "error option"



text \<open>
  Everything outside the model that one call may consult: the environment variable, the
  collaborators and their answers during that call.
\<close>

record world =
  node_env :: "string option"
  error_template :: "string \<Rightarrow> error_arg list \<Rightarrow> string"
  normalize_model_schema :: "schema \<Rightarrow> string + schema"
  the_table_builder :: table_builder
  the_sink_builders :: sink_builders
  the_parser :: parser
  the_driver :: driver





text \<open>
  The only change a call may make to a handle: none, or the flag set to \<^verbatim>\<open>true\<close>.
\<close>

definition only_readied :: "model \<Rightarrow> model \<Rightarrow> bool" where
  "only_readied m m' = (m' = m \<or> m' = m\<lparr>ready := JBool True\<rparr>)"

section \<open>A concrete model\<close>

text \<open>
  The schema of the spec's scenarios: fields \<^verbatim>\<open>{id: uuid, name: text}\<close>, key
  \<^verbatim>\<open>[id]\<close>, in a table \<^verbatim>\<open>events\<close>, with collaborators that answer in the simplest
  way. The properties below are evaluated on it.
\<close>

definition example_schema :: schema where
  "example_schema =
    \<lparr>schema_fields = fmupd ''id'' ''uuid'' (fmupd ''name'' ''text'' fmempty),
     key = [Col ''id''],
     clustering_order = fmempty,
     indexes = None, custom_indexes = None, custom_index = None, materialized_views = None,
     es_index_mapping = JUndefined, graph_mapping = JUndefined\<rparr>"

text \<open>The same table with an index on \<^verbatim>\<open>name\<close>, and with another key.\<close>

definition example_schema_indexed :: schema where
  "example_schema_indexed = example_schema\<lparr>indexes := Some [''name'']\<rparr>"

definition example_schema_rekeyed :: schema where
  "example_schema_rekeyed = example_schema\<lparr>key := [Col ''name'']\<rparr>"

definition no_hooks :: hooks where
  "no_hooks = \<lparr>before_save = None, after_save = None, before_update = None,
                after_update = None, before_delete = None, after_delete = None\<rparr>"

definition example_properties :: properties where
  "example_properties =
    \<lparr>table_name = ''events'', keyspace = ''ks'', schema = example_schema, hooks = no_hooks,
     migration = JStr ''alter'', dropTableOnSchemaChange = JUndefined, createTable = JUndefined,
     esclient = False, gremlin_client = False\<rparr>"

definition example_normalizer :: "schema \<Rightarrow> string + schema" where
  "example_normalizer s = Inr s"

definition example_template :: "string \<Rightarrow> error_arg list \<Rightarrow> string" where
  "example_template kind args = kind"

text \<open>A table builder whose every call succeeds, on a database that has the table \<open>db\<close>.\<close>

definition example_table_builder :: "schema option \<Rightarrow> table_builder" where
  "example_table_builder db =
    \<lparr>get_table_schema = Inr db, create_table = None, init_alter_operations = None,
     drop_recreate_table = None, create_indexes = None, create_custom_indexes = None,
     create_custom_index = None, create_mviews = None, first_settled = 0\<rparr>"

text \<open>
  A parser for the table: the WHERE clause binds \<^verbatim>\<open>id\<close> when the query object has it,
  the ORDER BY and LIMIT clauses follow \<^verbatim>\<open>$orderby\<close> and \<^verbatim>\<open>$limit\<close>, the GROUP BY
  clause follows the option \<^verbatim>\<open>groupby\<close>, an update sets \<^verbatim>\<open>name\<close>, and an insert writes
  both fields.
\<close>

definition property :: "(string, jsval) fmap \<Rightarrow> string \<Rightarrow> jsval" where
  "property object k = (case fmlookup object k of Some v \<Rightarrow> v | None \<Rightarrow> JUndefined)"

definition example_where :: "schema \<Rightarrow> (string, jsval) fmap \<Rightarrow> error + clause" where
  "example_where sch q =
    (case fmlookup q ''id'' of
       Some v \<Rightarrow> Inr \<lparr>query = ''WHERE \"id\" = ?'', params = [v]\<rparr>
     | None \<Rightarrow> Inr \<lparr>query = [], params = []\<rparr>)"

definition example_limit :: "(string, jsval) fmap \<Rightarrow> error + string" where
  "example_limit q = (if fmlookup q ''$limit'' = Some (JNum 1) then Inr ''LIMIT 1'' else Inr [])"

definition example_orderby :: "(string, jsval) fmap \<Rightarrow> error + string" where
  "example_orderby q =
    (if fmlookup q ''$orderby'' = None then Inr [] else Inr ''ORDER BY \"name\" ASC'')"

definition example_groupby :: "options \<Rightarrow> error + string" where
  "example_groupby opts = (if groupby opts = None then Inr [] else Inr ''GROUP BY \"name\"'')"

definition example_update_values ::
  "schema \<Rightarrow> (string, jsval) fmap \<Rightarrow> bool \<Rightarrow> error + update_value_expression" where
  "example_update_values sch v cb =
    Inr \<lparr>updateClauses = [''\"name\"=?''], queryParams = [property v ''name''], errorHappened = False\<rparr>"

definition example_save_values ::
  "(string, jsval) fmap \<Rightarrow> schema \<Rightarrow> bool \<Rightarrow> error + save_value_expression" where
  "example_save_values inst sch cb =
    Inr \<lparr>identifiers = [''\"id\"'', ''\"name\"''], values_of = [''?'', ''?''],
         save_queryParams = [property inst ''id'', property inst ''name''], save_errorHappened = False\<rparr>"

definition example_parser :: parser where
  "example_parser =
    \<lparr>get_orderby_clause = example_orderby,
     get_limit_clause = example_limit,
     get_where_clause = example_where,
     get_select_clause = (\<lambda>opts. Inr ''*''),
     get_groupby_clause = example_groupby,
     get_if_clause = (\<lambda>sch conds. Inr \<lparr>query = [], params = []\<rparr>),
     get_update_value_expression = example_update_values,
     get_save_value_expression = example_save_values\<rparr>"

text \<open>A driver on a table that holds the rows \<open>rows\<close>, and answers every statement with them.\<close>

definition example_driver :: "(string, jsval) fmap list \<Rightarrow> driver" where
  "example_driver rows =
    \<lparr>execute_query = (\<lambda>stmt ps. Inr rows),
     execute_eachRow = (\<lambda>stmt ps. None),
     execute_stream = (\<lambda>stmt ps. None)\<rparr>"

definition example_row :: "(string, jsval) fmap" where
  "example_row = fmupd ''id'' (JNum 5) (fmupd ''name'' (JStr ''first'') fmempty)"

definition example_row2 :: "(string, jsval) fmap" where
  "example_row2 = fmupd ''id'' (JNum 5) (fmupd ''name'' (JStr ''second'') fmempty)"

definition example_options :: options where
  "example_options =
    \<lparr>raw = None, prepare = None, select = None, groupby = None, distinct_opt = False, materialized_view = None,
     allow_filtering = False, return_query = False, ttl = JUndefined, conditions = None,
     if_exists = False, if_not_exist = False\<rparr>"

definition example_model :: model where
  "example_model = new_model example_properties"

text \<open>Hooks that veto with \<^verbatim>\<open>false\<close>, and hooks that return nothing.\<close>

definition veto2 :: "(string, jsval) fmap \<Rightarrow> options \<Rightarrow> jsval" where
  "veto2 a opts = JBool False"

definition veto3 :: "(string, jsval) fmap \<Rightarrow> (string, jsval) fmap \<Rightarrow> options \<Rightarrow> jsval" where
  "veto3 a b opts = JBool False"

definition silent2 :: "(string, jsval) fmap \<Rightarrow> options \<Rightarrow> jsval" where
  "silent2 a opts = JUndefined"

definition silent3 :: "(string, jsval) fmap \<Rightarrow> (string, jsval) fmap \<Rightarrow> options \<Rightarrow> jsval" where
  "silent3 a b opts = JUndefined"

definition vetoing_hooks :: hooks where
  "vetoing_hooks =
    \<lparr>before_save = Some veto2, after_save = None,
     before_update = Some veto3, after_update = None,
     before_delete = Some veto2, after_delete = None\<rparr>"

definition silent_hooks :: hooks where
  "silent_hooks =
    \<lparr>before_save = Some silent2, after_save = None,
     before_update = Some silent3, after_update = None,
     before_delete = Some silent2, after_delete = None\<rparr>"

definition model_with_hooks :: "hooks \<Rightarrow> model" where
  "model_with_hooks hks = new_model (example_properties\<lparr>hooks := hks\<rparr>)"



text \<open>
  The target of \<^verbatim>\<open>FROM\<close> in the words of the spec, \<^verbatim>\<open><table>[.<materialized_view>]\<close>:
  the table, followed by a dot and the view when a view is asked for.
\<close>

definition spec_from_target :: "string \<Rightarrow> string option \<Rightarrow> string" where
  "spec_from_target table mv = table @ (case mv of Some v \<Rightarrow> ''.'' @ v | None \<Rightarrow> [])"

text \<open>A clause as it is appended to a statement: a space and the clause, or nothing.\<close>

definition appended :: "string \<Rightarrow> string" where
  "appended c = (if c = [] then [] else '' '' @ c)"

section \<open>Properties of the schema synchronisation\<close>

lemmas example_defs = example_table_builder_def example_normalizer_def example_properties_def
  example_schema_def example_schema_indexed_def example_schema_rekeyed_def example_template_def
  no_hooks_def

lemmas sync_defs = sync_model_definition_def resolve_migration_def drop_recreate_def
  afterDBCreate_def promise_all_def List.map_filter_def Let_def

lemma afterDBCreate_no_alter_drop:
  "\<not> list_ex is_alter (fst (afterDBCreate tb ms e))
   \<and> \<not> list_ex is_drop_recreate (fst (afterDBCreate tb ms e))"
  by (simp add: afterDBCreate_def Let_def split: option.splits)

text \<open>
  C3. When the table exists and the declared and the live schema have the same normalized
  form, the sync only reads the live schema and calls back with \<^verbatim>\<open>(null, false)\<close>: no
  table, index or view is created, altered or dropped. This holds whatever the migration
  setting, the legacy flag and the environment are, since the comparison comes before the
  branch on the policy.
\<close>

theorem noop_when_normalized_equal:
  assumes "get_table_schema tb = Inr (Some dbSchema)"
    and "nz (schema props) = Inr n"
    and "nz dbSchema = Inr n"
  shows "sync_model_definition env tmpl nz tb props = ([GetTableSchema], Callback_value (JBool False))"
  using assms by (simp add: sync_model_definition_def Let_def)

theorem noop_when_normalized_equal_witness:
  "get_table_schema (example_table_builder (Some example_schema)) = Inr (Some example_schema)
   \<and> example_normalizer (schema example_properties) = Inr example_schema
   \<and> example_normalizer example_schema = Inr example_schema
   \<and> sync_model_definition None example_template example_normalizer
        (example_table_builder (Some example_schema)) example_properties
      = ([GetTableSchema], Callback_value (JBool False))"
  using noop_when_normalized_equal [of "example_table_builder (Some example_schema)" example_schema
      example_normalizer example_properties example_schema None example_template]
  by (simp add: example_table_builder_def example_normalizer_def example_properties_def)

text \<open>
  C4. When the table does not exist: if \<^verbatim>\<open>createTable\<close> is the boolean \<^verbatim>\<open>false\<close> the
  sync calls back with the error \<^verbatim>\<open>model.tablecreation.schemanotfound\<close> and does nothing
  but read the live schema; for any other value of \<^verbatim>\<open>createTable\<close> it calls
  \<^verbatim>\<open>create_table\<close> with the declared schema and goes on with \<^verbatim>\<open>afterDBCreate\<close>.
\<close>

theorem absent_table_create_or_reject:
  assumes "get_table_schema tb = Inr None"
  shows "(createTable props = JBool False \<longrightarrow>
            sync_model_definition env tmpl nz tb props
              = ([GetTableSchema],
                 Callback_error (BuildError ''model.tablecreation.schemanotfound'' [AStr (table_name props)]))
            \<and> \<not> list_ex is_create (fst (sync_model_definition env tmpl nz tb props)))
       \<and> (createTable props \<noteq> JBool False \<longrightarrow>
            sync_model_definition env tmpl nz tb props
              = (GetTableSchema # CreateTable (schema props)
                   # fst (afterDBCreate tb (schema props) (create_table tb)),
                 snd (afterDBCreate tb (schema props) (create_table tb)))
            \<and> list_ex is_create (fst (sync_model_definition env tmpl nz tb props)))"
  using assms by (simp add: sync_model_definition_def Let_def case_prod_beta)

theorem absent_table_create_or_reject_witness:
  "get_table_schema (example_table_builder None) = Inr None
   \<and> createTable (example_properties\<lparr>createTable := JBool False\<rparr>) = JBool False
   \<and> sync_model_definition None example_template example_normalizer (example_table_builder None)
        (example_properties\<lparr>createTable := JBool False\<rparr>)
      = ([GetTableSchema], Callback_error (BuildError ''model.tablecreation.schemanotfound'' [AStr ''events'']))
   \<and> createTable example_properties \<noteq> JBool False
   \<and> sync_model_definition None example_template example_normalizer (example_table_builder None)
        example_properties
      = ([GetTableSchema, CreateTable example_schema], Callback_value (JBool True))"
  using absent_table_create_or_reject [of "example_table_builder None"
          "example_properties\<lparr>createTable := JBool False\<rparr>" None example_template example_normalizer]
        absent_table_create_or_reject [of "example_table_builder None"
          example_properties None example_template example_normalizer]
  by (simp add: example_defs afterDBCreate_def promise_all_def List.map_filter_def)

text \<open>
  C2. Under the policy \<^verbatim>\<open>alter\<close> (set on the model, outside production), when the
  normalized key or the normalized clustering order of the declared and the live schema
  differ, the sync never calls the incremental-alter routine
  \<^verbatim>\<open>init_alter_operations\<close>: after reading the live schema its next call is
  \<^verbatim>\<open>drop_recreate_table\<close>.
\<close>

theorem key_change_drops_and_recreates:
  assumes "get_table_schema tb = Inr (Some dbSchema)"
    and "nz (schema props) = Inr nm"
    and "nz dbSchema = Inr nd"
    and "key nm \<noteq> key nd \<or> clustering_order nm \<noteq> clustering_order nd"
    and "migration props = JStr ''alter''"
    and "env \<noteq> Some ''production''"
  shows "\<not> list_ex is_alter (fst (sync_model_definition env tmpl nz tb props))
       \<and> sync_model_definition env tmpl nz tb props
          = (GetTableSchema # DropRecreateTable (schema props) (materialized_views nd)
               # fst (afterDBCreate tb (schema props) (drop_recreate_table tb)),
             snd (afterDBCreate tb (schema props) (drop_recreate_table tb)))"
proof -
  have ne: "nm \<noteq> nd" using assms(4) by auto
  have mig: "resolve_migration env props = JStr ''alter''"
    using assms(5,6) by (simp add: resolve_migration_def Let_def)
  have eq: "sync_model_definition env tmpl nz tb props
          = (GetTableSchema # DropRecreateTable (schema props) (materialized_views nd)
               # fst (afterDBCreate tb (schema props) (drop_recreate_table tb)),
             snd (afterDBCreate tb (schema props) (drop_recreate_table tb)))"
    using assms(1-4) ne mig
    by (auto simp add: sync_model_definition_def drop_recreate_def Let_def case_prod_beta)
  show ?thesis
    using afterDBCreate_no_alter_drop [of tb "schema props" "drop_recreate_table tb"]
    by (simp add: eq)
qed

theorem key_change_drops_and_recreates_witness:
  "get_table_schema (example_table_builder (Some example_schema_rekeyed)) = Inr (Some example_schema_rekeyed)
   \<and> example_normalizer (schema example_properties) = Inr example_schema
   \<and> example_normalizer example_schema_rekeyed = Inr example_schema_rekeyed
   \<and> key example_schema \<noteq> key example_schema_rekeyed
   \<and> migration example_properties = JStr ''alter''
   \<and> sync_model_definition None example_template example_normalizer
        (example_table_builder (Some example_schema_rekeyed)) example_properties
      = ([GetTableSchema, DropRecreateTable example_schema None], Callback_value (JBool True))"
  using key_change_drops_and_recreates [of "example_table_builder (Some example_schema_rekeyed)"
          example_schema_rekeyed example_normalizer example_properties example_schema
          example_schema_rekeyed None example_template]
  by (simp add: example_defs afterDBCreate_def promise_all_def List.map_filter_def)

text \<open>
  C5. Under the policy \<^verbatim>\<open>alter\<close>, with the same normalized key and clustering order on
  both sides, when \<^verbatim>\<open>init_alter_operations\<close> calls back with an error: if the message of
  the error is \<^verbatim>\<open>alter_impossible\<close>, the sync goes on with \<^verbatim>\<open>drop_recreate_table\<close>,
  and what the caller receives is the outcome of that path alone, in which the error of
  the alter routine has no part; any other error is handed to the caller as it is.
\<close>

theorem alter_impossible_falls_back:
  assumes "get_table_schema tb = Inr (Some dbSchema)"
    and "nz (schema props) = Inr nm"
    and "nz dbSchema = Inr nd"
    and "nm \<noteq> nd"
    and "key nm = key nd" and "clustering_order nm = clustering_order nd"
    and "migration props = JStr ''alter''"
    and "env \<noteq> Some ''production''"
    and "init_alter_operations tb = Some err1"
  shows "(message tmpl err1 = ''alter_impossible'' \<longrightarrow>
            sync_model_definition env tmpl nz tb props
              = (GetTableSchema # InitAlterOperations (schema props) dbSchema nm nd
                   # DropRecreateTable (schema props) (materialized_views nd)
                   # fst (afterDBCreate tb (schema props) (drop_recreate_table tb)),
                 snd (afterDBCreate tb (schema props) (drop_recreate_table tb))))
       \<and> (message tmpl err1 \<noteq> ''alter_impossible'' \<longrightarrow>
            sync_model_definition env tmpl nz tb props
              = ([GetTableSchema, InitAlterOperations (schema props) dbSchema nm nd],
                 Callback_error err1))"
proof -
  have mig: "resolve_migration env props = JStr ''alter''"
    using assms(7,8) by (simp add: resolve_migration_def Let_def)
  show ?thesis
    using assms(1-6,9) mig
    by (simp add: sync_model_definition_def drop_recreate_def Let_def case_prod_beta)
qed

theorem alter_impossible_falls_back_witness:
  "example_schema_indexed \<noteq> example_schema
   \<and> key example_schema_indexed = key example_schema
   \<and> clustering_order example_schema_indexed = clustering_order example_schema
   \<and> message example_template (JsError ''alter_impossible'') = ''alter_impossible''
   \<and> sync_model_definition None example_template example_normalizer
        ((example_table_builder (Some example_schema))
           \<lparr>init_alter_operations := Some (JsError ''alter_impossible'')\<rparr>)
        (example_properties\<lparr>schema := example_schema_indexed\<rparr>)
      = ([GetTableSchema,
          InitAlterOperations example_schema_indexed example_schema example_schema_indexed example_schema,
          DropRecreateTable example_schema_indexed None,
          CreateIndexes [''name'']],
         Callback_value (JBool True))
   \<and> message example_template (JsError ''unavailable'') \<noteq> ''alter_impossible''
   \<and> sync_model_definition None example_template example_normalizer
        ((example_table_builder (Some example_schema))
           \<lparr>init_alter_operations := Some (JsError ''unavailable'')\<rparr>)
        (example_properties\<lparr>schema := example_schema_indexed\<rparr>)
      = ([GetTableSchema,
          InitAlterOperations example_schema_indexed example_schema example_schema_indexed example_schema],
         Callback_error (JsError ''unavailable''))"
  using alter_impossible_falls_back [of
          "(example_table_builder (Some example_schema))
             \<lparr>init_alter_operations := Some (JsError ''alter_impossible'')\<rparr>"
          example_schema example_normalizer "example_properties\<lparr>schema := example_schema_indexed\<rparr>"
          example_schema_indexed example_schema None "JsError ''alter_impossible''" example_template]
        alter_impossible_falls_back [of
          "(example_table_builder (Some example_schema))
             \<lparr>init_alter_operations := Some (JsError ''unavailable'')\<rparr>"
          example_schema example_normalizer "example_properties\<lparr>schema := example_schema_indexed\<rparr>"
          example_schema_indexed example_schema None "JsError ''unavailable''" example_template]
  by (simp add: example_defs afterDBCreate_def promise_all_def List.map_filter_def)

text \<open>
  C1, as stated, fails: in production, on a database without the table and a model whose
  \<^verbatim>\<open>createTable\<close> is \<^verbatim>\<open>false\<close>, the sync rejects with the schema-not-found error, which
  is neither a no-op, nor a create, nor the migration-suspended error.
\<close>

theorem production_schema_not_found_counterexample:
  "sync_model_definition (Some ''production'') example_template example_normalizer
     (example_table_builder None) (example_properties\<lparr>createTable := JBool False\<rparr>)
   = ([GetTableSchema],
      Callback_error (BuildError ''model.tablecreation.schemanotfound'' [AStr ''events'']))"
  by (simp add: example_defs sync_defs)

text \<open>
  C1, amended. In production the policy in force is \<^verbatim>\<open>safe\<close>, whatever the model sets,
  and the sync never calls \<^verbatim>\<open>init_alter_operations\<close> nor \<^verbatim>\<open>drop_recreate_table\<close>.
  Its outcome is one of: the error of reading the live schema; the schema-not-found error
  (table absent, \<^verbatim>\<open>createTable\<close> false); the creation of the table (table absent); the
  invalid-schema exception of the normalizer; no change (normalized schemas equal); the
  migration-suspended error.
\<close>

theorem production_is_safe:
  "resolve_migration (Some ''production'') props = JStr ''safe''
   \<and> \<not> list_ex is_alter (fst (sync_model_definition (Some ''production'') tmpl nz tb props))
   \<and> \<not> list_ex is_drop_recreate (fst (sync_model_definition (Some ''production'') tmpl nz tb props))
   \<and> ((\<exists>err. get_table_schema tb = Inl err
           \<and> sync_model_definition (Some ''production'') tmpl nz tb props
               = ([GetTableSchema], Callback_error err))
      \<or> (get_table_schema tb = Inr None \<and> createTable props = JBool False
           \<and> sync_model_definition (Some ''production'') tmpl nz tb props
               = ([GetTableSchema],
                  Callback_error (BuildError ''model.tablecreation.schemanotfound'' [AStr (table_name props)])))
      \<or> (get_table_schema tb = Inr None
           \<and> sync_model_definition (Some ''production'') tmpl nz tb props
               = (GetTableSchema # CreateTable (schema props)
                    # fst (afterDBCreate tb (schema props) (create_table tb)),
                  snd (afterDBCreate tb (schema props) (create_table tb))))
      \<or> (\<exists>msg. sync_model_definition (Some ''production'') tmpl nz tb props
               = ([GetTableSchema], Threw (BuildError ''model.validator.invalidschema'' [AStr msg])))
      \<or> (\<exists>dbSchema n. get_table_schema tb = Inr (Some dbSchema)
           \<and> nz (schema props) = Inr n \<and> nz dbSchema = Inr n
           \<and> sync_model_definition (Some ''production'') tmpl nz tb props
               = ([GetTableSchema], Callback_value (JBool False)))
      \<or> sync_model_definition (Some ''production'') tmpl nz tb props
           = ([GetTableSchema],
              Callback_error (BuildError ''model.tablecreation.schemamismatch''
                [AStr (table_name props),
                 AStr ''migration suspended, please apply the change manually''])))"
  (is "?safe \<and> ?noalter \<and> ?nodrop \<and> ?outcomes")
proof -
  have safe: ?safe
    by (simp add: resolve_migration_def Let_def)
  have acts: "?noalter \<and> ?nodrop"
    using afterDBCreate_no_alter_drop [of tb "schema props" "create_table tb"]
    by (simp add: sync_model_definition_def safe Let_def case_prod_beta split: sum.splits option.splits)
  have out: ?outcomes
    by (simp add: sync_model_definition_def safe Let_def case_prod_beta split: sum.splits option.splits)
  show ?thesis using safe acts out by blast
qed

theorem production_is_safe_witness:
  "resolve_migration (Some ''production'') (example_properties\<lparr>migration := JStr ''drop''\<rparr>) = JStr ''safe''
   \<and> sync_model_definition (Some ''production'') example_template example_normalizer
        (example_table_builder (Some example_schema_rekeyed))
        (example_properties\<lparr>migration := JStr ''drop''\<rparr>)
      = ([GetTableSchema],
         Callback_error (BuildError ''model.tablecreation.schemamismatch''
           [AStr ''events'', AStr ''migration suspended, please apply the change manually'']))"
  using production_is_safe [of "example_properties\<lparr>migration := JStr ''drop''\<rparr>"
          example_template example_normalizer "example_table_builder (Some example_schema_rekeyed)"]
  by (simp add: example_defs sync_defs)

section \<open>Properties of the statement builder and of the table operations\<close>

lemmas builder_example_defs = example_parser_def example_where_def example_limit_def
  example_orderby_def example_groupby_def
  example_update_values_def example_save_values_def example_driver_def example_row_def
  example_row2_def example_options_def example_model_def new_model_def model_with_hooks_def
  vetoing_hooks_def silent_hooks_def veto2_def veto3_def silent2_def silent3_def property_def

lemma execute_table_query_eq:
  "execute_table_query dr m stmt ps
     = (if is_table_ready m then m else m\<lparr>ready := JBool True\<rparr>,
        [Execute stmt ps], execute_query dr stmt ps)"
  by (simp add: execute_table_query_def init_def invoke_def)



text \<open>
  C6, as stated, fails on the target of \<^verbatim>\<open>FROM\<close>: with the option
  \<^verbatim>\<open>materialized_view\<close> set to \<^verbatim>\<open>by_name\<close> on the table \<^verbatim>\<open>events\<close>, the statement
  selects from \<^verbatim>\<open>"by_name"\<close>, and the table is not named in it at all, where the claim
  has the table followed by the view.
\<close>

theorem find_query_view_counterexample:
  "get_find_query example_parser example_model fmempty
      (example_options\<lparr>materialized_view := Some ''by_name''\<rparr>)
     = Inr \<lparr>query = ''SELECT * FROM \"by_name\";'', params = []\<rparr>
   \<and> spec_from_target (table_name (properties example_model)) (Some ''by_name'') = ''events.by_name''"
  by (simp add: get_find_query_def builder_example_defs example_defs spec_from_target_def)

text \<open>
  C6, amended. When the five clause builders return, \<^verbatim>\<open>get_find_query\<close> composes, in
  this order: \<^verbatim>\<open>SELECT\<close>, \<^verbatim>\<open>DISTINCT\<close> if asked for, the projection, \<^verbatim>\<open>FROM\<close> and,
  in double quotes, the materialized view if the option names one and the table
  otherwise; then the WHERE, ORDER BY, GROUP BY and LIMIT clauses, each only if it is not
  empty; then \<^verbatim>\<open>ALLOW FILTERING\<close> if the option is set; then a semicolon. The parameters
  returned are those of the WHERE clause, and no others.
\<close>

theorem find_query_composition:
  assumes "get_orderby_clause ps q = Inr orderbyClause"
    and "get_limit_clause ps q = Inr limitClause"
    and "get_where_clause ps (schema (properties m)) q = Inr whereClause"
    and "get_select_clause ps opts = Inr selectClause"
    and "get_groupby_clause ps opts = Inr groupbyClause"
  shows "get_find_query ps m q opts
     = Inr \<lparr>query = ''SELECT '' @ (if distinct_opt opts then ''DISTINCT '' else []) @ selectClause
                      @ '' FROM \"''
                      @ (case materialized_view opts of
                           Some mv \<Rightarrow> if mv \<noteq> [] then mv else table_name (properties m)
                         | None \<Rightarrow> table_name (properties m))
                      @ ''\"''
                      @ appended (query whereClause)
                      @ appended orderbyClause
                      @ appended groupbyClause
                      @ appended limitClause
                      @ (if allow_filtering opts then '' ALLOW FILTERING'' else [])
                      @ '';'',
             params = params whereClause\<rparr>"
  using assms by (simp add: get_find_query_def Let_def appended_def)

theorem find_query_composition_witness:
  "get_orderby_clause example_parser
      (fmupd ''id'' (JNum 5) (fmupd ''$orderby'' (JStr ''name'') (fmupd ''$limit'' (JNum 1) fmempty)))
     = Inr ''ORDER BY \"name\" ASC''
   \<and> get_limit_clause example_parser
      (fmupd ''id'' (JNum 5) (fmupd ''$orderby'' (JStr ''name'') (fmupd ''$limit'' (JNum 1) fmempty)))
     = Inr ''LIMIT 1''
   \<and> get_where_clause example_parser (schema (properties example_model))
      (fmupd ''id'' (JNum 5) (fmupd ''$orderby'' (JStr ''name'') (fmupd ''$limit'' (JNum 1) fmempty)))
     = Inr \<lparr>query = ''WHERE \"id\" = ?'', params = [JNum 5]\<rparr>
   \<and> get_select_clause example_parser
      (example_options\<lparr>groupby := Some [''name''], distinct_opt := True, allow_filtering := True\<rparr>)
     = Inr ''*''
   \<and> get_groupby_clause example_parser
      (example_options\<lparr>groupby := Some [''name''], distinct_opt := True, allow_filtering := True\<rparr>)
     = Inr ''GROUP BY \"name\"''
   \<and> get_find_query example_parser example_model
      (fmupd ''id'' (JNum 5) (fmupd ''$orderby'' (JStr ''name'') (fmupd ''$limit'' (JNum 1) fmempty)))
      (example_options\<lparr>groupby := Some [''name''], distinct_opt := True, allow_filtering := True\<rparr>)
     = Inr \<lparr>query = ''SELECT DISTINCT * FROM \"events\" WHERE \"id\" = ? ORDER BY \"name\" ASC GROUP BY \"name\" LIMIT 1 ALLOW FILTERING;'',
            params = [JNum 5]\<rparr>"
  using find_query_composition [where ps = example_parser and m = example_model
          and q = "fmupd ''id'' (JNum 5) (fmupd ''$orderby'' (JStr ''name'') (fmupd ''$limit'' (JNum 1) fmempty))"
          and opts = "example_options\<lparr>groupby := Some [''name''], distinct_opt := True, allow_filtering := True\<rparr>"
          and orderbyClause = "''ORDER BY \"name\" ASC''" and limitClause = "''LIMIT 1''"
          and whereClause = "\<lparr>query = ''WHERE \"id\" = ?'', params = [JNum 5]\<rparr>"
          and selectClause = "''*''" and groupbyClause = "''GROUP BY \"name\"''"]
  by (simp add: builder_example_defs example_defs appended_def)

lemma update_binds_ttl_first:
  assumes num: "isNumber (ttl opts)"
    and upd: "update ps dr m q v opts cb = (m', evs, out)"
    and built: "out = Returned_query stmt fp \<or> Execute stmt fp \<in> set evs"
  shows "\<exists>uve whereClause rest.
           get_update_value_expression ps (schema (properties m)) v cb = Inr uve
         \<and> get_where_clause ps (schema (properties m)) q = Inr whereClause
         \<and> fp = ttl opts # queryParams uve @ params whereClause @ rest"
proof -
  have t: "isNumber (ttl (defaults_prepare opts))" "ttl (defaults_prepare opts) = ttl opts"
    using num by (simp_all add: defaults_prepare_def)
  show ?thesis
  proof (cases "hook_is_false (map_option (\<lambda>h. h q v (defaults_prepare opts))
                  (before_update (hooks (properties m))))")
    case True
    then have "evs = [] \<and> out = callback_or_throw (BuildError ''model.update.before.error'' []) cb"
      using upd by (simp add: update_def Let_def)
    then show ?thesis using built by (simp add: callback_or_throw_def split: if_splits)
  next
    case nohook: False
    show ?thesis
    proof (cases "get_update_value_expression ps (schema (properties m)) v cb")
      case (Inl e)
      then have "evs = [] \<and> out = Threw e"
        using upd nohook by (simp add: update_def Let_def)
      then show ?thesis using built by simp
    next
      case (Inr uve)
      show ?thesis
      proof (cases "errorHappened uve")
        case True
        then have "evs = [] \<and> out = Reported_by_parser"
          using upd nohook Inr by (simp add: update_def Let_def)
        then show ?thesis using built by simp
      next
        case noerr: False
        show ?thesis
        proof (cases "get_where_clause ps (schema (properties m)) q")
          case (Inl e)
          then have "evs = [] \<and> out = callback_or_throw e cb"
            using upd nohook Inr noerr by (simp add: update_def Let_def)
          then show ?thesis using built by (simp add: callback_or_throw_def split: if_splits)
        next
          case wc: (Inr whereClause)
          have "\<exists>rest. fp = ttl opts # queryParams uve @ params whereClause @ rest"
            using upd nohook Inr noerr wc built t
            by (auto simp add: update_def Let_def execute_table_query_eq after_execute_def
                split: option.splits sum.splits if_splits)
          then show ?thesis using Inr wc by simp
        qed
      qed
    qed
  qed
qed

lemma save_binds_ttl_last:
  assumes num: "isNumber (ttl opts)"
    and sv: "save ps dr m inst opts cb = (m', evs, out)"
    and built: "out = Returned_query stmt fp \<or> Execute stmt fp \<in> set evs"
  shows "\<exists>sve. get_save_value_expression ps inst (schema (properties m)) cb = Inr sve
             \<and> fp = save_queryParams sve @ [ttl opts]"
proof -
  have t: "isNumber (ttl (defaults_prepare opts))" "ttl (defaults_prepare opts) = ttl opts"
    using num by (simp_all add: defaults_prepare_def)
  show ?thesis
  proof (cases "hook_is_false (map_option (\<lambda>h. h inst (defaults_prepare opts))
                  (before_save (hooks (properties m))))")
    case True
    then have "evs = [] \<and> out = callback_or_throw (BuildError ''model.save.before.error'' []) cb"
      using sv by (simp add: save_def Let_def)
    then show ?thesis using built by (simp add: callback_or_throw_def split: if_splits)
  next
    case nohook: False
    show ?thesis
    proof (cases "get_save_value_expression ps inst (schema (properties m)) cb")
      case (Inl e)
      then have "evs = [] \<and> out = Threw e"
        using sv nohook by (simp add: save_def Let_def)
      then show ?thesis using built by simp
    next
      case (Inr sve)
      show ?thesis
      proof (cases "save_errorHappened sve")
        case True
        then have "evs = [] \<and> out = Reported_by_parser"
          using sv nohook Inr by (simp add: save_def Let_def)
        then show ?thesis using built by simp
      next
        case noerr: False
        have "fp = save_queryParams sve @ [ttl opts]"
          using sv nohook Inr noerr built t
          by (auto simp add: save_def Let_def execute_table_query_eq after_execute_def
              split: option.splits sum.splits if_splits)
        then show ?thesis using Inr by simp
      qed
    qed
  qed
qed

lemma update_builds_with_ttl_first:
  assumes num: "isNumber (ttl opts)"
    and nohook: "\<not> hook_is_false (map_option (\<lambda>h. h q v (defaults_prepare opts))
                      (before_update (hooks (properties m))))"
    and uve: "get_update_value_expression ps (schema (properties m)) v cb = Inr uve"
    and noerr: "\<not> errorHappened uve"
    and wc: "get_where_clause ps (schema (properties m)) q = Inr whereClause"
    and ifc: "\<forall>conds. conditions opts = Some conds
                \<longrightarrow> (\<exists>ifClause. get_if_clause ps (schema (properties m)) conds = Inr ifClause)"
  shows "\<exists>suffix rest.
           update ps dr m q v opts cb
             = (if return_query opts
                then (m, [],
                      Returned_query
                        (''UPDATE \"'' @ table_name (properties m) @ ''\" USING TTL ? SET ''
                           @ join '', '' (updateClauses uve) @ '' '' @ query whereClause @ suffix @ '';'')
                        (ttl opts # queryParams uve @ params whereClause @ rest))
                else (if is_table_ready m then m else m\<lparr>ready := JBool True\<rparr>,
                      [Execute
                        (''UPDATE \"'' @ table_name (properties m) @ ''\" USING TTL ? SET ''
                           @ join '', '' (updateClauses uve) @ '' '' @ query whereClause @ suffix @ '';'')
                        (ttl opts # queryParams uve @ params whereClause @ rest)],
                      after_execute ''update'' cb
                        (execute_query dr
                          (''UPDATE \"'' @ table_name (properties m) @ ''\" USING TTL ? SET ''
                             @ join '', '' (updateClauses uve) @ '' '' @ query whereClause @ suffix @ '';'')
                          (ttl opts # queryParams uve @ params whereClause @ rest))
                        (map_option (\<lambda>h. h q v (defaults_prepare opts))
                           (after_update (hooks (properties m))))))"
proof -
  have t: "isNumber (ttl (defaults_prepare opts))" "ttl (defaults_prepare opts) = ttl opts"
    "conditions (defaults_prepare opts) = conditions opts"
    "if_exists (defaults_prepare opts) = if_exists opts"
    "return_query (defaults_prepare opts) = return_query opts"
    using num by (simp_all add: defaults_prepare_def)
  show ?thesis
  proof (cases "conditions opts")
    case None
    show ?thesis
    proof (cases "if_exists opts")
      case True
      show ?thesis
        apply (rule exI [of _ "'' IF EXISTS''"])
        apply (rule exI [of _ "[]"])
        using nohook uve noerr wc None True t
        by (simp add: update_def Let_def execute_table_query_eq)
    next
      case False
      show ?thesis
        apply (rule exI [of _ "[]"])
        apply (rule exI [of _ "[]"])
        using nohook uve noerr wc None False t
        by (simp add: update_def Let_def execute_table_query_eq)
    qed
  next
    case (Some conds)
    then obtain ifClause where ic: "get_if_clause ps (schema (properties m)) conds = Inr ifClause"
      using ifc by blast
    show ?thesis
    proof (cases "query ifClause = []")
      case True
      show ?thesis
        apply (rule exI [of _ "[]"])
        apply (rule exI [of _ "[]"])
        using nohook uve noerr wc Some ic True t
        by (simp add: update_def Let_def execute_table_query_eq)
    next
      case False
      show ?thesis
        apply (rule exI [of _ "'' '' @ query ifClause"])
        apply (rule exI [of _ "params ifClause"])
        using nohook uve noerr wc Some ic False t
        by (simp add: update_def Let_def execute_table_query_eq)
    qed
  qed
qed

lemma save_builds_with_ttl_last:
  assumes num: "isNumber (ttl opts)"
    and nohook: "\<not> hook_is_false (map_option (\<lambda>h. h inst (defaults_prepare opts))
                      (before_save (hooks (properties m))))"
    and sve: "get_save_value_expression ps inst (schema (properties m)) cb = Inr sve"
    and noerr: "\<not> save_errorHappened sve"
  shows "save ps dr m inst opts cb
          = (if return_query opts
             then (m, [],
                   Returned_query
                     (''INSERT INTO \"'' @ table_name (properties m) @ ''\" ( ''
                        @ join '' , '' (identifiers sve) @ '' ) VALUES ( ''
                        @ join '' , '' (values_of sve) @ '' )''
                        @ (if if_not_exist opts then '' IF NOT EXISTS'' else []) @ '' USING TTL ?;'')
                     (save_queryParams sve @ [ttl opts]))
             else (if is_table_ready m then m else m\<lparr>ready := JBool True\<rparr>,
                   [Execute
                     (''INSERT INTO \"'' @ table_name (properties m) @ ''\" ( ''
                        @ join '' , '' (identifiers sve) @ '' ) VALUES ( ''
                        @ join '' , '' (values_of sve) @ '' )''
                        @ (if if_not_exist opts then '' IF NOT EXISTS'' else []) @ '' USING TTL ?;'')
                     (save_queryParams sve @ [ttl opts])],
                   after_execute ''save'' cb
                     (execute_query dr
                       (''INSERT INTO \"'' @ table_name (properties m) @ ''\" ( ''
                          @ join '' , '' (identifiers sve) @ '' ) VALUES ( ''
                          @ join '' , '' (values_of sve) @ '' )''
                          @ (if if_not_exist opts then '' IF NOT EXISTS'' else []) @ '' USING TTL ?;'')
                       (save_queryParams sve @ [ttl opts]))
                     (map_option (\<lambda>h. h inst (defaults_prepare opts))
                        (after_save (hooks (properties m))))))"
proof -
  have t: "isNumber (ttl (defaults_prepare opts))" "ttl (defaults_prepare opts) = ttl opts"
    "if_not_exist (defaults_prepare opts) = if_not_exist opts"
    "return_query (defaults_prepare opts) = return_query opts"
    using num by (simp_all add: defaults_prepare_def)
  show ?thesis
  proof (cases "if_not_exist opts")
    case True
    then show ?thesis using nohook sve noerr t
      by (simp add: save_def Let_def execute_table_query_eq)
  next
    case False
    then show ?thesis using nohook sve noerr t
      by (simp add: save_def Let_def execute_table_query_eq)
  qed
qed

text \<open>
  C7. With a numeric \<^verbatim>\<open>ttl\<close> option. An \<^verbatim>\<open>update\<close> that its before-hook does not veto
  and whose clauses the parser builds does build its statement, with \<^verbatim>\<open>USING TTL ?\<close>
  after the table, and binds the TTL first, then the parameters of the SET clause, then
  those of the WHERE clause and of the IF clause: that statement with these parameters is
  what is returned under \<^verbatim>\<open>return_query\<close>, and what goes to the driver otherwise. A
  \<^verbatim>\<open>save\<close> that its before-hook does not veto and whose values the parser builds does
  build its statement, with \<^verbatim>\<open>USING TTL ?\<close> at the end, and binds the column values
  first and the TTL last: returned under \<^verbatim>\<open>return_query\<close>, handed to the driver
  otherwise.
\<close>

theorem ttl_first_in_update_last_in_save:
  assumes "isNumber (ttl opts)"
  shows "(\<not> hook_is_false (map_option (\<lambda>h. h q v (defaults_prepare opts))
                 (before_update (hooks (properties m))))
          \<and> get_update_value_expression ps (schema (properties m)) v cb = Inr uve
          \<and> \<not> errorHappened uve
          \<and> get_where_clause ps (schema (properties m)) q = Inr whereClause
          \<and> (\<forall>conds. conditions opts = Some conds
                \<longrightarrow> (\<exists>ifClause. get_if_clause ps (schema (properties m)) conds = Inr ifClause))
          \<longrightarrow> (\<exists>suffix rest.
                update ps dr m q v opts cb
                  = (if return_query opts
                     then (m, [],
                           Returned_query
                             (''UPDATE \"'' @ table_name (properties m) @ ''\" USING TTL ? SET ''
                                @ join '', '' (updateClauses uve) @ '' '' @ query whereClause
                                @ suffix @ '';'')
                             (ttl opts # queryParams uve @ params whereClause @ rest))
                     else (if is_table_ready m then m else m\<lparr>ready := JBool True\<rparr>,
                           [Execute
                             (''UPDATE \"'' @ table_name (properties m) @ ''\" USING TTL ? SET ''
                                @ join '', '' (updateClauses uve) @ '' '' @ query whereClause
                                @ suffix @ '';'')
                             (ttl opts # queryParams uve @ params whereClause @ rest)],
                           after_execute ''update'' cb
                             (execute_query dr
                               (''UPDATE \"'' @ table_name (properties m) @ ''\" USING TTL ? SET ''
                                  @ join '', '' (updateClauses uve) @ '' '' @ query whereClause
                                  @ suffix @ '';'')
                               (ttl opts # queryParams uve @ params whereClause @ rest))
                             (map_option (\<lambda>h. h q v (defaults_prepare opts))
                                (after_update (hooks (properties m))))))))
       \<and> (\<not> hook_is_false (map_option (\<lambda>h. h inst (defaults_prepare opts))
                 (before_save (hooks (properties m))))
          \<and> get_save_value_expression ps inst (schema (properties m)) cb = Inr sve
          \<and> \<not> save_errorHappened sve
          \<longrightarrow> save ps dr m inst opts cb
                = (if return_query opts
                   then (m, [],
                         Returned_query
                           (''INSERT INTO \"'' @ table_name (properties m) @ ''\" ( ''
                              @ join '' , '' (identifiers sve) @ '' ) VALUES ( ''
                              @ join '' , '' (values_of sve) @ '' )''
                              @ (if if_not_exist opts then '' IF NOT EXISTS'' else [])
                              @ '' USING TTL ?;'')
                           (save_queryParams sve @ [ttl opts]))
                   else (if is_table_ready m then m else m\<lparr>ready := JBool True\<rparr>,
                         [Execute
                           (''INSERT INTO \"'' @ table_name (properties m) @ ''\" ( ''
                              @ join '' , '' (identifiers sve) @ '' ) VALUES ( ''
                              @ join '' , '' (values_of sve) @ '' )''
                              @ (if if_not_exist opts then '' IF NOT EXISTS'' else [])
                              @ '' USING TTL ?;'')
                           (save_queryParams sve @ [ttl opts])],
                         after_execute ''save'' cb
                           (execute_query dr
                             (''INSERT INTO \"'' @ table_name (properties m) @ ''\" ( ''
                                @ join '' , '' (identifiers sve) @ '' ) VALUES ( ''
                                @ join '' , '' (values_of sve) @ '' )''
                                @ (if if_not_exist opts then '' IF NOT EXISTS'' else [])
                                @ '' USING TTL ?;'')
                             (save_queryParams sve @ [ttl opts]))
                           (map_option (\<lambda>h. h inst (defaults_prepare opts))
                              (after_save (hooks (properties m)))))))"
proof (intro conjI impI)
  assume a: "\<not> hook_is_false (map_option (\<lambda>h. h q v (defaults_prepare opts))
                 (before_update (hooks (properties m))))
          \<and> get_update_value_expression ps (schema (properties m)) v cb = Inr uve
          \<and> \<not> errorHappened uve
          \<and> get_where_clause ps (schema (properties m)) q = Inr whereClause
          \<and> (\<forall>conds. conditions opts = Some conds
                \<longrightarrow> (\<exists>ifClause. get_if_clause ps (schema (properties m)) conds = Inr ifClause))"
  show "\<exists>suffix rest.
                update ps dr m q v opts cb
                  = (if return_query opts
                     then (m, [],
                           Returned_query
                             (''UPDATE \"'' @ table_name (properties m) @ ''\" USING TTL ? SET ''
                                @ join '', '' (updateClauses uve) @ '' '' @ query whereClause
                                @ suffix @ '';'')
                             (ttl opts # queryParams uve @ params whereClause @ rest))
                     else (if is_table_ready m then m else m\<lparr>ready := JBool True\<rparr>,
                           [Execute
                             (''UPDATE \"'' @ table_name (properties m) @ ''\" USING TTL ? SET ''
                                @ join '', '' (updateClauses uve) @ '' '' @ query whereClause
                                @ suffix @ '';'')
                             (ttl opts # queryParams uve @ params whereClause @ rest)],
                           after_execute ''update'' cb
                             (execute_query dr
                               (''UPDATE \"'' @ table_name (properties m) @ ''\" USING TTL ? SET ''
                                  @ join '', '' (updateClauses uve) @ '' '' @ query whereClause
                                  @ suffix @ '';'')
                               (ttl opts # queryParams uve @ params whereClause @ rest))
                             (map_option (\<lambda>h. h q v (defaults_prepare opts))
                                (after_update (hooks (properties m))))))"
    by (rule update_builds_with_ttl_first [OF assms]) (use a in blast)+
next
  assume b: "\<not> hook_is_false (map_option (\<lambda>h. h inst (defaults_prepare opts))
                 (before_save (hooks (properties m))))
          \<and> get_save_value_expression ps inst (schema (properties m)) cb = Inr sve
          \<and> \<not> save_errorHappened sve"
  show "save ps dr m inst opts cb
                = (if return_query opts
                   then (m, [],
                         Returned_query
                           (''INSERT INTO \"'' @ table_name (properties m) @ ''\" ( ''
                              @ join '' , '' (identifiers sve) @ '' ) VALUES ( ''
                              @ join '' , '' (values_of sve) @ '' )''
                              @ (if if_not_exist opts then '' IF NOT EXISTS'' else [])
                              @ '' USING TTL ?;'')
                           (save_queryParams sve @ [ttl opts]))
                   else (if is_table_ready m then m else m\<lparr>ready := JBool True\<rparr>,
                         [Execute
                           (''INSERT INTO \"'' @ table_name (properties m) @ ''\" ( ''
                              @ join '' , '' (identifiers sve) @ '' ) VALUES ( ''
                              @ join '' , '' (values_of sve) @ '' )''
                              @ (if if_not_exist opts then '' IF NOT EXISTS'' else [])
                              @ '' USING TTL ?;'')
                           (save_queryParams sve @ [ttl opts])],
                         after_execute ''save'' cb
                           (execute_query dr
                             (''INSERT INTO \"'' @ table_name (properties m) @ ''\" ( ''
                                @ join '' , '' (identifiers sve) @ '' ) VALUES ( ''
                                @ join '' , '' (values_of sve) @ '' )''
                                @ (if if_not_exist opts then '' IF NOT EXISTS'' else [])
                                @ '' USING TTL ?;'')
                             (save_queryParams sve @ [ttl opts]))
                           (map_option (\<lambda>h. h inst (defaults_prepare opts))
                              (after_save (hooks (properties m))))))"
    by (rule save_builds_with_ttl_last [OF assms]) (use b in blast)+
qed

theorem ttl_first_in_update_last_in_save_witness:
  "isNumber (ttl (example_options\<lparr>ttl := JNum 300\<rparr>))
   \<and> before_update (hooks (properties example_model)) = None
   \<and> before_save (hooks (properties example_model)) = None
   \<and> get_update_value_expression example_parser (schema (properties example_model))
        (fmupd ''name'' (JStr ''x'') fmempty) True
      = Inr \<lparr>updateClauses = [''\"name\"=?''], queryParams = [JStr ''x''], errorHappened = False\<rparr>
   \<and> get_where_clause example_parser (schema (properties example_model)) (fmupd ''id'' (JNum 5) fmempty)
      = Inr \<lparr>query = ''WHERE \"id\" = ?'', params = [JNum 5]\<rparr>
   \<and> conditions (example_options\<lparr>ttl := JNum 300\<rparr>) = None
   \<and> get_save_value_expression example_parser
        (fmupd ''id'' (JNum 5) (fmupd ''name'' (JStr ''x'') fmempty))
        (schema (properties example_model)) True
      = Inr \<lparr>identifiers = [''\"id\"'', ''\"name\"''], values_of = [''?'', ''?''],
             save_queryParams = [JNum 5, JStr ''x''], save_errorHappened = False\<rparr>
   \<and> \<not> return_query (example_options\<lparr>ttl := JNum 300\<rparr>)
   \<and> update example_parser (example_driver []) example_model
        (fmupd ''id'' (JNum 5) fmempty) (fmupd ''name'' (JStr ''x'') fmempty)
        (example_options\<lparr>ttl := JNum 300\<rparr>) True
      = (example_model\<lparr>ready := JBool True\<rparr>,
         [Execute ''UPDATE \"events\" USING TTL ? SET \"name\"=? WHERE \"id\" = ?;''
            [JNum 300, JStr ''x'', JNum 5]],
         Callback_value [])
   \<and> save example_parser (example_driver []) example_model
        (fmupd ''id'' (JNum 5) (fmupd ''name'' (JStr ''x'') fmempty))
        (example_options\<lparr>ttl := JNum 300\<rparr>) True
      = (example_model\<lparr>ready := JBool True\<rparr>,
         [Execute ''INSERT INTO \"events\" ( \"id\" , \"name\" ) VALUES ( ? , ? ) USING TTL ?;''
            [JNum 5, JStr ''x'', JNum 300]],
         Callback_value [])
   \<and> update example_parser (example_driver []) example_model
        (fmupd ''id'' (JNum 5) fmempty) (fmupd ''name'' (JStr ''x'') fmempty)
        (example_options\<lparr>ttl := JNum 300, return_query := True\<rparr>) True
      = (example_model, [],
         Returned_query ''UPDATE \"events\" USING TTL ? SET \"name\"=? WHERE \"id\" = ?;''
           [JNum 300, JStr ''x'', JNum 5])
   \<and> save example_parser (example_driver []) example_model
        (fmupd ''id'' (JNum 5) (fmupd ''name'' (JStr ''x'') fmempty))
        (example_options\<lparr>ttl := JNum 300, return_query := True\<rparr>) True
      = (example_model, [],
         Returned_query ''INSERT INTO \"events\" ( \"id\" , \"name\" ) VALUES ( ? , ? ) USING TTL ?;''
           [JNum 5, JStr ''x'', JNum 300])"
proof -
  let ?o = "example_options\<lparr>ttl := JNum 300\<rparr>"
  let ?inst = "fmupd ''id'' (JNum 5) (fmupd ''name'' (JStr ''x'') fmempty)"
  let ?sve = "\<lparr>identifiers = [''\"id\"'', ''\"name\"''], values_of = [''?'', ''?''],
               save_queryParams = [JNum 5, JStr ''x''], save_errorHappened = False\<rparr>"
  have num: "isNumber (ttl ?o)"
    by (simp add: example_options_def)
  have h: "\<not> hook_is_false (map_option (\<lambda>h. h ?inst (defaults_prepare ?o))
               (before_save (hooks (properties example_model))))
           \<and> get_save_value_expression example_parser ?inst (schema (properties example_model)) True
               = Inr ?sve
           \<and> \<not> save_errorHappened ?sve"
    by (simp add: builder_example_defs example_defs hook_is_false_def)
  have sv: "save example_parser (example_driver []) example_model ?inst ?o True
      = (example_model\<lparr>ready := JBool True\<rparr>,
         [Execute ''INSERT INTO \"events\" ( \"id\" , \"name\" ) VALUES ( ? , ? ) USING TTL ?;''
            [JNum 5, JStr ''x'', JNum 300]],
         Callback_value [])"
    using ttl_first_in_update_last_in_save [where opts = ?o and ps = example_parser
            and dr = "example_driver []" and m = example_model and inst = ?inst and cb = True
            and sve = ?sve, OF num, THEN conjunct2, THEN mp, OF h]
    by (simp add: builder_example_defs example_defs is_table_ready_def after_execute_def
         hook_is_false_def)
  have rest: "isNumber (ttl (example_options\<lparr>ttl := JNum 300\<rparr>))
   \<and> before_update (hooks (properties example_model)) = None
   \<and> before_save (hooks (properties example_model)) = None
   \<and> get_update_value_expression example_parser (schema (properties example_model))
        (fmupd ''name'' (JStr ''x'') fmempty) True
      = Inr \<lparr>updateClauses = [''\"name\"=?''], queryParams = [JStr ''x''], errorHappened = False\<rparr>
   \<and> get_where_clause example_parser (schema (properties example_model)) (fmupd ''id'' (JNum 5) fmempty)
      = Inr \<lparr>query = ''WHERE \"id\" = ?'', params = [JNum 5]\<rparr>
   \<and> conditions (example_options\<lparr>ttl := JNum 300\<rparr>) = None
   \<and> get_save_value_expression example_parser
        (fmupd ''id'' (JNum 5) (fmupd ''name'' (JStr ''x'') fmempty))
        (schema (properties example_model)) True
      = Inr \<lparr>identifiers = [''\"id\"'', ''\"name\"''], values_of = [''?'', ''?''],
             save_queryParams = [JNum 5, JStr ''x''], save_errorHappened = False\<rparr>
   \<and> \<not> return_query (example_options\<lparr>ttl := JNum 300\<rparr>)
   \<and> update example_parser (example_driver []) example_model
        (fmupd ''id'' (JNum 5) fmempty) (fmupd ''name'' (JStr ''x'') fmempty)
        (example_options\<lparr>ttl := JNum 300\<rparr>) True
      = (example_model\<lparr>ready := JBool True\<rparr>,
         [Execute ''UPDATE \"events\" USING TTL ? SET \"name\"=? WHERE \"id\" = ?;''
            [JNum 300, JStr ''x'', JNum 5]],
         Callback_value [])"
    by (simp add: update_def Let_def builder_example_defs example_defs defaults_prepare_def
         hook_is_false_def execute_table_query_eq is_table_ready_def after_execute_def)
  have rq: "update example_parser (example_driver []) example_model
        (fmupd ''id'' (JNum 5) fmempty) (fmupd ''name'' (JStr ''x'') fmempty)
        (example_options\<lparr>ttl := JNum 300, return_query := True\<rparr>) True
      = (example_model, [],
         Returned_query ''UPDATE \"events\" USING TTL ? SET \"name\"=? WHERE \"id\" = ?;''
           [JNum 300, JStr ''x'', JNum 5])
   \<and> save example_parser (example_driver []) example_model
        (fmupd ''id'' (JNum 5) (fmupd ''name'' (JStr ''x'') fmempty))
        (example_options\<lparr>ttl := JNum 300, return_query := True\<rparr>) True
      = (example_model, [],
         Returned_query ''INSERT INTO \"events\" ( \"id\" , \"name\" ) VALUES ( ? , ? ) USING TTL ?;''
           [JNum 5, JStr ''x'', JNum 300])"
    by (simp add: update_def save_def Let_def builder_example_defs example_defs defaults_prepare_def
         hook_is_false_def)
  show ?thesis
    using rest sv rq by simp
qed

text \<open>
  C8, as stated, fails: a \<^verbatim>\<open>before_save\<close> hook that returns \<^verbatim>\<open>undefined\<close>, which is
  falsy, does not stop \<^verbatim>\<open>save\<close>: the INSERT is built and handed to the driver.
\<close>

theorem before_hook_falsy_counterexample:
  "before_save (hooks (properties (model_with_hooks silent_hooks))) = Some silent2
   \<and> \<not> truthy (silent2 (fmupd ''id'' (JNum 5) (fmupd ''name'' (JStr ''x'') fmempty))
                 (defaults_prepare example_options))
   \<and> save example_parser (example_driver []) (model_with_hooks silent_hooks)
        (fmupd ''id'' (JNum 5) (fmupd ''name'' (JStr ''x'') fmempty)) example_options True
      = ((model_with_hooks silent_hooks)\<lparr>ready := JBool True\<rparr>,
         [Execute ''INSERT INTO \"events\" ( \"id\" , \"name\" ) VALUES ( ? , ? );'' [JNum 5, JStr ''x'']],
         Callback_value [])"
  by (simp add: save_def Let_def builder_example_defs example_defs defaults_prepare_def hook_is_false_def
       execute_table_query_eq is_table_ready_def after_execute_def)

text \<open>
  C8, amended. When the schema declares the before-hook of \<^verbatim>\<open>save\<close>, \<^verbatim>\<open>update\<close> or
  \<^verbatim>\<open>delete\<close> and the hook returns the boolean \<^verbatim>\<open>false\<close>, the operation ends there, with
  the error \<^verbatim>\<open>model.save.before.error\<close>, \<^verbatim>\<open>model.update.before.error\<close> or
  \<^verbatim>\<open>model.delete.before.error\<close> given to the callback (thrown when there is none): the
  model is as before, no statement has gone to the driver, and the result does not depend
  on the parser, which builds the statements.
\<close>

theorem before_hook_false_aborts:
  "(before_save (hooks (properties m)) = Some hs \<and> hs inst (defaults_prepare opts) = JBool False
      \<longrightarrow> save ps dr m inst opts cb
            = (m, [], callback_or_throw (BuildError ''model.save.before.error'' []) cb))
   \<and> (before_update (hooks (properties m)) = Some hu \<and> hu q v (defaults_prepare opts) = JBool False
      \<longrightarrow> update ps dr m q v opts cb
            = (m, [], callback_or_throw (BuildError ''model.update.before.error'' []) cb))
   \<and> (before_delete (hooks (properties m)) = Some hdel \<and> hdel q (defaults_prepare opts) = JBool False
      \<longrightarrow> delete ps dr m q opts cb
            = (m, [], callback_or_throw (BuildError ''model.delete.before.error'' []) cb))"
  by (simp add: save_def update_def delete_def hook_is_false_def Let_def)

theorem before_hook_false_aborts_witness:
  "before_save (hooks (properties (model_with_hooks vetoing_hooks))) = Some veto2
   \<and> veto2 (fmupd ''id'' (JNum 5) fmempty) (defaults_prepare example_options) = JBool False
   \<and> save example_parser (example_driver []) (model_with_hooks vetoing_hooks)
        (fmupd ''id'' (JNum 5) fmempty) example_options True
      = (model_with_hooks vetoing_hooks, [], Callback_error (BuildError ''model.save.before.error'' []))
   \<and> before_update (hooks (properties (model_with_hooks vetoing_hooks))) = Some veto3
   \<and> veto3 (fmupd ''id'' (JNum 5) fmempty) (fmupd ''name'' (JStr ''x'') fmempty)
        (defaults_prepare example_options) = JBool False
   \<and> update example_parser (example_driver []) (model_with_hooks vetoing_hooks)
        (fmupd ''id'' (JNum 5) fmempty) (fmupd ''name'' (JStr ''x'') fmempty) example_options True
      = (model_with_hooks vetoing_hooks, [], Callback_error (BuildError ''model.update.before.error'' []))
   \<and> before_delete (hooks (properties (model_with_hooks vetoing_hooks))) = Some veto2
   \<and> delete example_parser (example_driver []) (model_with_hooks vetoing_hooks)
        (fmupd ''id'' (JNum 5) fmempty) example_options False
      = (model_with_hooks vetoing_hooks, [], Threw (BuildError ''model.delete.before.error'' []))"
  using before_hook_false_aborts [where m = "model_with_hooks vetoing_hooks" and hs = veto2
          and hu = veto3 and hdel = veto2 and inst = "fmupd ''id'' (JNum 5) fmempty"
          and q = "fmupd ''id'' (JNum 5) fmempty" and v = "fmupd ''name'' (JStr ''x'') fmempty"
          and opts = example_options and ps = example_parser and dr = "example_driver []" and cb = True]
        before_hook_false_aborts [where m = "model_with_hooks vetoing_hooks" and hs = veto2
          and hu = veto3 and hdel = veto2 and inst = "fmupd ''id'' (JNum 5) fmempty"
          and q = "fmupd ''id'' (JNum 5) fmempty" and v = "fmupd ''name'' (JStr ''x'') fmempty"
          and opts = example_options and ps = example_parser and dr = "example_driver []" and cb = False]
  by (simp add: model_with_hooks_def new_model_def vetoing_hooks_def veto2_def veto3_def
       callback_or_throw_def)



section \<open>Properties of the readiness flag\<close>

lemma only_readied_same [simp]: "only_readied m m"
  by (simp add: only_readied_def)

lemma only_readied_set [simp]: "only_readied m (m\<lparr>ready := JBool True\<rparr>)"
  by (simp add: only_readied_def)


















end
